theory Spec2Isabelle
  imports Complex_Main
begin

section \<open>Citation highlighting: the coordinate mapper of pdf-highlighter.tsx\<close>

text \<open>
  The embedding follows \<^verbatim>\<open>frontend/src/sections/qna/chatbot/components/pdf-highlighter.tsx\<close>.
  JavaScript numbers that carry coordinates are modelled as \<^typ>\<open>real\<close>: a product such as
  \<^verbatim>\<open>boundingBox[0].x * PAGE_WIDTH\<close> is the exact product here, where the engine rounds it to
  the nearest double. Page numbers and the \<^verbatim>\<open>topK\<close> cursor are integers.
  A property that may be \<^verbatim>\<open>undefined\<close> or \<^verbatim>\<open>null\<close> in the source
  (the code guards it with \<^verbatim>\<open>?.\<close>, \<^verbatim>\<open>!\<close> or \<^verbatim>\<open>||\<close>) is an \<open>option\<close>.

  Field names are the source's, with a short prefix where two records of the source share a
  name or where the name is a constant of HOL: \<^verbatim>\<open>x\<close>, \<^verbatim>\<open>y\<close> of a corner are
  \<open>pt_x\<close>, \<open>pt_y\<close>; \<^verbatim>\<open>metadata._id\<close> is \<open>meta_id\<close>; the fields of a highlight are
  \<open>h_content\<close>, \<open>h_position\<close>, \<open>h_comment\<close>, \<open>h_id\<close>; \<^verbatim>\<open>position.pageNumber\<close> is
  \<open>pos_pageNumber\<close>; \<^verbatim>\<open>content.text\<close> and \<^verbatim>\<open>comment.text\<close> are \<open>content_text\<close> and
  \<open>comment_text\<close>.
\<close>

subsection \<open>Data\<close>

record BoundingBox =
  pt_x :: real
  pt_y :: real

text \<open>
  \<^verbatim>\<open>citation.metadata\<close>: the bounding box is a list that may be absent; an entry of the list
  may be \<^verbatim>\<open>null\<close> (reading \<^verbatim>\<open>.x\<close> of it throws, which the \<^verbatim>\<open>try\<close> of
  \<^verbatim>\<open>processHighlight\<close> catches).
\<close>

record Metadata =
  bounding_box :: "BoundingBox option list option"
  pageNum :: "int option"
  meta_id :: "string option"

record DocumentContent =
  content :: "string option"
  metadata :: "Metadata option"

record Scaled =
  x1 :: real
  y1 :: real
  x2 :: real
  y2 :: real
  width :: real
  height :: real
  pageNumber :: int

record Position =
  boundingRect :: Scaled
  rects :: "Scaled list"
  pos_pageNumber :: int

record Content =
  content_text :: string
  image :: "string option"

record Comment =
  comment_text :: string
  emoji :: string

record HighlightType =
  h_content :: Content
  h_position :: Position
  h_comment :: Comment
  h_id :: string

text \<open>
  What \<^verbatim>\<open>console.warn('Invalid bounding box:', boundingBox)\<close> and
  \<^verbatim>\<open>console.error('Error processing highlight:', error)\<close> report.
\<close>

datatype diagnostic =
  Invalid_bounding_box "BoundingBox option list option"
| Error_processing_highlight

subsection \<open>Identifiers\<close>

text \<open>
  \<^verbatim>\<open>const getNextId = () => String(Math.random()).slice(2);\<close>
  The random source is a function \<open>rnd\<close>: \<open>rnd k\<close> is the text \<^verbatim>\<open>String(Math.random())\<close> of
  the \<open>k\<close>-th draw, and the state is the number of draws made so far.
\<close>

type_synonym random_source = "nat \<Rightarrow> string"

definition getNextId :: "random_source \<Rightarrow> nat \<Rightarrow> string \<times> nat" where
  "getNextId rnd n = (drop 2 (rnd n), Suc n)"

subsection \<open>processHighlight\<close>

definition PAGE_WIDTH :: real where
  "PAGE_WIDTH = 967"

definition PAGE_HEIGHT :: real where
  "PAGE_HEIGHT = 747.2272727272727"

text \<open>\<^verbatim>\<open>citation.metadata?.pageNum || 1\<close>: an absent page number and the number 0 are falsy.\<close>

definition pageNum_or_1 :: "Metadata \<Rightarrow> int" where
  "pageNum_or_1 m = (case pageNum m of None \<Rightarrow> 1 | Some p \<Rightarrow> if p = 0 then 1 else p)"

text \<open>
  \<^verbatim>\<open>citation.metadata._id || citation.metadata._id || getNextId()\<close>: an absent id and the
  empty string are falsy; only then is a random number drawn.
\<close>

definition assign_id :: "random_source \<Rightarrow> nat \<Rightarrow> Metadata \<Rightarrow> string \<times> nat" where
  "assign_id rnd n m =
     (case meta_id m of
        None \<Rightarrow> getNextId rnd n
      | Some s \<Rightarrow> if s = [] then getNextId rnd n else (s, n))"

definition mainRect :: "BoundingBox \<Rightarrow> BoundingBox \<Rightarrow> Metadata \<Rightarrow> Scaled" where
  "mainRect c0 c2 m =
     \<lparr> x1 = pt_x c0 * PAGE_WIDTH,
       y1 = pt_y c0 * PAGE_HEIGHT,
       x2 = pt_x c2 * PAGE_WIDTH,
       y2 = pt_y c2 * PAGE_HEIGHT,
       width = PAGE_WIDTH,
       height = PAGE_HEIGHT,
       pageNumber = pageNum_or_1 m \<rparr>"

text \<open>
  The result is the highlight or \<^verbatim>\<open>null\<close>, the diagnostics written to the console, and
  the new state of the random source. The three ways out of the source are the three
  \<open>None\<close> branches (the early return, twice, and the \<^verbatim>\<open>catch\<close>) and the \<open>Some\<close> branch.
  With a box of four entries, the only expression of the \<^verbatim>\<open>try\<close> block that can throw is
  \<^verbatim>\<open>boundingBox[0].x\<close> or \<^verbatim>\<open>boundingBox[2].x\<close> on a \<^verbatim>\<open>null\<close> entry, before any id is drawn.
\<close>

definition processHighlight ::
  "random_source \<Rightarrow> nat \<Rightarrow> DocumentContent \<Rightarrow> (HighlightType option \<times> diagnostic list) \<times> nat"
where
  "processHighlight rnd n citation =
     (case metadata citation of
        None \<Rightarrow> ((None, [Invalid_bounding_box None]), n)
      | Some m \<Rightarrow>
          (case bounding_box m of
             None \<Rightarrow> ((None, [Invalid_bounding_box None]), n)
           | Some boundingBox \<Rightarrow>
               if length boundingBox \<noteq> 4
               then ((None, [Invalid_bounding_box (Some boundingBox)]), n)
               else
                 (case (boundingBox ! 0, boundingBox ! 2) of
                    (Some c0, Some c2) \<Rightarrow>
                      (let r = mainRect c0 c2 m;
                           (ident, n') = assign_id rnd n m
                       in ((Some \<lparr> h_content = \<lparr> content_text = (case content citation of
                                                               None \<Rightarrow> []
                                                             | Some t \<Rightarrow> t),
                                                     image = None \<rparr>,
                                      h_position = \<lparr> boundingRect = r,
                                                      rects = [r],
                                                      pos_pageNumber = pageNumber r \<rparr>,
                                      h_comment = \<lparr> comment_text = [], emoji = [] \<rparr>,
                                      h_id = ident \<rparr>, []), n'))
                  | _ \<Rightarrow> ((None, [Error_processing_highlight]), n))))"

text \<open>A citation the mapper accepts: four entries, of which entries 0 and 2 are points.\<close>

definition four_point_box :: "DocumentContent \<Rightarrow> BoundingBox \<Rightarrow> BoundingBox \<Rightarrow> bool" where
  "four_point_box citation c0 c2 =
     (case metadata citation of
        None \<Rightarrow> False
      | Some m \<Rightarrow>
          (case bounding_box m of
             None \<Rightarrow> False
           | Some bb \<Rightarrow> length bb = 4 \<and> bb ! 0 = Some c0 \<and> bb ! 2 = Some c2))"

definition the_metadata :: "DocumentContent \<Rightarrow> Metadata" where
  "the_metadata citation =
     (case metadata citation of
        Some m \<Rightarrow> m
      | None \<Rightarrow> \<lparr> bounding_box = None, pageNum = None, meta_id = None \<rparr>)"

subsection \<open>processCitationsWithHighlights\<close>

text \<open>
  \<^verbatim>\<open>citations.map((citation) => ({...citation, highlight: processHighlight(citation)}))\<close>,
  from left to right, with the console and the random source threaded through.
\<close>

fun map_processHighlight ::
  "random_source \<Rightarrow> nat \<Rightarrow> DocumentContent list
     \<Rightarrow> ((DocumentContent \<times> HighlightType option) list \<times> diagnostic list) \<times> nat"
where
  "map_processHighlight rnd n [] = (([], []), n)"
| "map_processHighlight rnd n (citation # citations) =
     (case processHighlight rnd n citation of
        ((highlight, d), n1) \<Rightarrow>
          (case map_processHighlight rnd n1 citations of
             ((mapped, ds), n2) \<Rightarrow> (((citation, highlight) # mapped, d @ ds), n2)))"

text \<open>\<^verbatim>\<open>.filter((citation) => citation.highlight)\<close>: the entries whose highlight is not \<^verbatim>\<open>null\<close>.\<close>

fun filter_highlight ::
  "(DocumentContent \<times> HighlightType option) list \<Rightarrow> (DocumentContent \<times> HighlightType) list"
where
  "filter_highlight [] = []"
| "filter_highlight ((citation, None) # rest) = filter_highlight rest"
| "filter_highlight ((citation, Some h) # rest) = (citation, h) # filter_highlight rest"

text \<open>
  The two pieces of component state the effect sets, \<^verbatim>\<open>processedCitations\<close> and
  \<^verbatim>\<open>highlights\<close>, and what the run wrote to the console.
\<close>

record mapper_output =
  processedCitations :: "(DocumentContent \<times> HighlightType) list"
  highlights :: "HighlightType list"
  console :: "diagnostic list"

text \<open>
  \<^verbatim>\<open>if (citations?.length > 0) { ... } else { setProcessedCitations([]); setHighlights([]); }\<close>
  The prop \<^verbatim>\<open>citations\<close> may be \<^verbatim>\<open>undefined\<close>.
\<close>

definition processCitationsWithHighlights ::
  "random_source \<Rightarrow> nat \<Rightarrow> DocumentContent list option \<Rightarrow> mapper_output \<times> nat"
where
  "processCitationsWithHighlights rnd n citations =
     (case citations of
        None \<Rightarrow> (\<lparr> processedCitations = [], highlights = [], console = [] \<rparr>, n)
      | Some cs \<Rightarrow>
          if length cs > 0
          then (case map_processHighlight rnd n cs of
                  ((mapped, ds), n') \<Rightarrow>
                    (let processed = filter_highlight mapped
                     in (\<lparr> processedCitations = processed,
                            highlights = map snd processed,
                            console = ds \<rparr>, n')))
          else (\<lparr> processedCitations = [], highlights = [], console = [] \<rparr>, n))"

text \<open>The mapper rejects a citation when \<^verbatim>\<open>processHighlight\<close> returns \<^verbatim>\<open>null\<close> for it.\<close>

definition bad_box :: "DocumentContent \<Rightarrow> bool" where
  "bad_box citation =
     (case metadata citation of
        None \<Rightarrow> True
      | Some m \<Rightarrow> (case bounding_box m of None \<Rightarrow> True | Some bb \<Rightarrow> length bb \<noteq> 4))"

definition accepted :: "DocumentContent \<Rightarrow> bool" where
  "accepted citation =
     (case metadata citation of
        None \<Rightarrow> False
      | Some m \<Rightarrow>
          (case bounding_box m of
             None \<Rightarrow> False
           | Some bb \<Rightarrow> length bb = 4 \<and> bb ! 0 \<noteq> None \<and> bb ! 2 \<noteq> None))"

subsection \<open>The highlights state: addHighlight, updateHighlight\<close>

text \<open>
  The \<^verbatim>\<open>highlights\<close> state at run time. TypeScript declares its elements as
  \<^verbatim>\<open>HighlightType\<close>, and the highlights the mapper makes have every field. The spreads of
  \<^verbatim>\<open>updateHighlight\<close> can store \<^verbatim>\<open>undefined\<close> in a field of \<^verbatim>\<open>position\<close> or of
  \<^verbatim>\<open>content\<close>, and the content of a selection has \<^verbatim>\<open>text\<close> and \<^verbatim>\<open>image\<close> optional, so a
  field of a stored highlight's position or content is an \<open>option\<close> (\<open>None\<close> is
  \<^verbatim>\<open>undefined\<close>). The fields are the source's with the prefix \<open>st_\<close>.
\<close>

record StoredPosition =
  st_boundingRect :: "Scaled option"
  st_rects :: "Scaled list option"
  st_pageNumber :: "int option"

record StoredContent =
  st_text :: "string option"
  st_image :: "string option"

record StoredHighlight =
  st_content :: StoredContent
  st_position :: StoredPosition
  st_comment :: Comment
  st_id :: string

text \<open>
  \<^verbatim>\<open>setHighlights(processed.map((c) => c.highlight).filter(Boolean))\<close>: a highlight of the
  mapper as an element of the state, every field defined.
\<close>

definition stored :: "HighlightType \<Rightarrow> StoredHighlight" where
  "stored h =
     \<lparr> st_content = \<lparr> st_text = Some (content_text (h_content h)),
                       st_image = image (h_content h) \<rparr>,
       st_position = \<lparr> st_boundingRect = Some (boundingRect (h_position h)),
                        st_rects = Some (rects (h_position h)),
                        st_pageNumber = Some (pos_pageNumber (h_position h)) \<rparr>,
       st_comment = h_comment h,
       st_id = h_id h \<rparr>"

text \<open>
  The argument of \<^verbatim>\<open>addHighlight\<close>, a highlight without id
  (\<^verbatim>\<open>addHighlight({ content, position, comment })\<close>); the comment may be missing.
\<close>

record NewHighlight =
  nh_content :: StoredContent
  nh_position :: StoredPosition
  nh_comment :: "Comment option"

text \<open>
  \<^verbatim>\<open>setHighlights((prevHighlights) => [
       { ...highlight, id: getNextId(), comment: highlight.comment || { text: '', emoji: '' } },
       ...prevHighlights ]);\<close>
\<close>

definition addHighlight ::
  "random_source \<Rightarrow> nat \<Rightarrow> NewHighlight \<Rightarrow> StoredHighlight list \<Rightarrow> StoredHighlight list \<times> nat"
where
  "addHighlight rnd n highlight prevHighlights =
     (case getNextId rnd n of
        (ident, n') \<Rightarrow>
          (\<lparr> st_content = nh_content highlight,
              st_position = nh_position highlight,
              st_comment = (case nh_comment highlight of
                              None \<Rightarrow> \<lparr> comment_text = [], emoji = [] \<rparr>
                            | Some c \<Rightarrow> c),
              st_id = ident \<rparr> # prevHighlights, n'))"

text \<open>
  A key of a \<^verbatim>\<open>Partial<Position>\<close> or \<^verbatim>\<open>Partial<Content>\<close> object: left out, or present
  with a value or with \<^verbatim>\<open>undefined\<close> (\<open>Present None\<close>). The spread
  \<^verbatim>\<open>{ ...h.position, ...position }\<close> writes every present key over the old one, also a
  key that is present as \<^verbatim>\<open>undefined\<close>.
\<close>

datatype 'a key = Absent | Present "'a option"

definition spread_key :: "'a option \<Rightarrow> 'a key \<Rightarrow> 'a option" where
  "spread_key old k = (case k of Absent \<Rightarrow> old | Present v \<Rightarrow> v)"

record PartialPosition =
  new_boundingRect :: "Scaled key"
  new_rects :: "Scaled list key"
  new_pageNumber :: "int key"

record PartialContent =
  new_text :: "string key"
  new_image :: "string key"

definition spread_position :: "StoredPosition \<Rightarrow> PartialPosition \<Rightarrow> StoredPosition" where
  "spread_position p q =
     \<lparr> st_boundingRect = spread_key (st_boundingRect p) (new_boundingRect q),
       st_rects = spread_key (st_rects p) (new_rects q),
       st_pageNumber = spread_key (st_pageNumber p) (new_pageNumber q) \<rparr>"

definition spread_content :: "StoredContent \<Rightarrow> PartialContent \<Rightarrow> StoredContent" where
  "spread_content c d =
     \<lparr> st_text = spread_key (st_text c) (new_text d),
       st_image = spread_key (st_image c) (new_image d) \<rparr>"

text \<open>
  \<^verbatim>\<open>prevHighlights.map((h) => { if (h.id !== highlightId) return h;
       return { ...h, position: {...h.position, ...position}, content: {...h.content, ...content} }; })\<close>
\<close>

definition updateHighlight ::
  "string \<Rightarrow> PartialPosition \<Rightarrow> PartialContent \<Rightarrow> StoredHighlight list \<Rightarrow> StoredHighlight list"
where
  "updateHighlight highlightId position content' prevHighlights =
     map (\<lambda>h. if st_id h \<noteq> highlightId then h
              else h\<lparr> st_position := spread_position (st_position h) position,
                      st_content := spread_content (st_content h) content' \<rparr>)
         prevHighlights"

text \<open>
  The one place that calls \<^verbatim>\<open>updateHighlight\<close>, in \<^verbatim>\<open>highlightTransform\<close>:
  \<^verbatim>\<open>const isTextHighlight = !highlight.content?.image;\<close> and, for a highlight that is not a
  text highlight, the \<^verbatim>\<open>AreaHighlight\<close> with
  \<^verbatim>\<open>onChange={(boundingRect) => { updateHighlight(highlight.id,
       { boundingRect: viewportToScaled(boundingRect) }, { image: screenshot(boundingRect) }); }}\<close>.
  The results of the library's \<^verbatim>\<open>viewportToScaled\<close> and \<^verbatim>\<open>screenshot\<close> are the arguments
  \<open>scaled\<close> and \<open>shot\<close>. A text highlight is rendered without this handler.
\<close>

definition isTextHighlight :: "StoredHighlight \<Rightarrow> bool" where
  "isTextHighlight highlight =
     (case st_image (st_content highlight) of None \<Rightarrow> True | Some i \<Rightarrow> i = [])"

definition onChange ::
  "StoredHighlight \<Rightarrow> Scaled \<Rightarrow> string \<Rightarrow> StoredHighlight list \<Rightarrow> StoredHighlight list"
where
  "onChange highlight scaled shot prevHighlights =
     (if isTextHighlight highlight then prevHighlights
      else updateHighlight (st_id highlight)
             \<lparr> new_boundingRect = Present (Some scaled), new_rects = Absent,
               new_pageNumber = Absent \<rparr>
             \<lparr> new_text = Absent, new_image = Present (Some shot) \<rparr>
             prevHighlights)"

section \<open>The search view of knowledge-search.tsx\<close>

text \<open>
  \<^verbatim>\<open>KnowledgeSearch\<close> is a child component: the result list, the \<^verbatim>\<open>loading\<close> flag and
  the two callbacks \<^verbatim>\<open>onSearchQueryChange\<close> and \<^verbatim>\<open>onTopKChange\<close> are props, and the
  component that owns them is not among the sources. The owner's state is the type
  parameter \<open>'p\<close>, reached only through the callbacks.
\<close>

type_synonym node = nat

type_synonym 'p onTopKChange = "(int \<Rightarrow> int) \<Rightarrow> 'p \<Rightarrow> 'p"

type_synonym 'p onSearchQueryChange = "string \<Rightarrow> 'p \<Rightarrow> 'p"

text \<open>
  An \<^verbatim>\<open>IntersectionObserver\<close> as \<^verbatim>\<open>lastResultElementRef\<close> makes it: the element it
  observes, if any, and the \<^verbatim>\<open>onTopKChange\<close> its callback closes over.
\<close>

record 'p IntersectionObserver =
  observed :: "node option"
  closed_over :: "'p onTopKChange option"

text \<open>
  The component's own state (\<^verbatim>\<open>useState\<close>, \<^verbatim>\<open>useRef\<close>), the props of the render
  committed last, whether that render had a last result element carrying the ref, and
  the owner's state.
\<close>

record 'p KnowledgeSearch =
  searchInputValue :: string
  searchQuery :: string
  hasSearched :: bool
  observer :: "'p IntersectionObserver option"
  loading :: bool
  onTopKChange :: "'p onTopKChange option"
  attached :: bool
  parent :: 'p

text \<open>
  \<^verbatim>\<open>(node) => { if (loading) return;
       if (observer.current) observer.current.disconnect();
       observer.current = new IntersectionObserver(...);
       if (node) observer.current.observe(node); }\<close>
  Disconnecting the old observer leaves the new one as the only live observer.
\<close>

definition lastResultElementRef ::
  "bool \<Rightarrow> 'p onTopKChange option \<Rightarrow> node option
     \<Rightarrow> 'p IntersectionObserver option \<Rightarrow> 'p IntersectionObserver option"
where
  "lastResultElementRef loading' onTopKChange' node' current =
     (if loading' then current
      else Some \<lparr> observed = node', closed_over = onTopKChange' \<rparr>)"

text \<open>
  The observer's callback:
  \<^verbatim>\<open>(entries) => { if (entries[0].isIntersecting && onTopKChange)
       onTopKChange((prevTopK) => prevTopK + 10); }\<close>
  An entry is its \<^verbatim>\<open>isIntersecting\<close> flag. On an empty entry list \<^verbatim>\<open>entries[0].isIntersecting\<close>
  throws before any call, and the owner's state stays as it is.
\<close>

definition observer_callback :: "'p onTopKChange option \<Rightarrow> bool list \<Rightarrow> 'p \<Rightarrow> 'p" where
  "observer_callback onTopKChange' entries p =
     (case entries of
        [] \<Rightarrow> p
      | isIntersecting # _ \<Rightarrow>
          (if isIntersecting
           then (case onTopKChange' of
                   None \<Rightarrow> p
                 | Some cb \<Rightarrow> cb (\<lambda>prevTopK. prevTopK + 10) p)
           else p))"

text \<open>
  \<^verbatim>\<open>handleSearch\<close>: \<^verbatim>\<open>setSearchQuery(searchInputValue); setHasSearched(true);
  if (onSearchQueryChange) onSearchQueryChange(searchInputValue);\<close>
\<close>

definition handleSearch ::
  "'p onSearchQueryChange option \<Rightarrow> 'p KnowledgeSearch \<Rightarrow> 'p KnowledgeSearch"
where
  "handleSearch onSearchQueryChange' v =
     (let v' = v\<lparr> searchQuery := searchInputValue v, hasSearched := True \<rparr>
      in case onSearchQueryChange' of
           None \<Rightarrow> v'
         | Some cb \<Rightarrow> v'\<lparr> parent := cb (searchInputValue v) (parent v) \<rparr>)"

text \<open>\<^verbatim>\<open>handleInputChange\<close>: \<^verbatim>\<open>setSearchInputValue(e.target.value)\<close>.\<close>

definition handleInputChange :: "string \<Rightarrow> 'p KnowledgeSearch \<Rightarrow> 'p KnowledgeSearch" where
  "handleInputChange value' v = v\<lparr> searchInputValue := value' \<rparr>"

subsection \<open>The environment: React's ref protocol and the browser's observer\<close>

text \<open>
  The view as it is mounted: nothing typed, \<^verbatim>\<open>observer.current\<close> is \<^verbatim>\<open>null\<close>, no element
  carries the ref yet.
\<close>

definition mount :: "'p \<Rightarrow> 'p KnowledgeSearch" where
  "mount p =
     \<lparr> searchInputValue = [], searchQuery = [], hasSearched = False, observer = None,
       loading = False, onTopKChange = None, attached = False, parent = p \<rparr>"

text \<open>
  A commit of a render with new props. \<^verbatim>\<open>lastResultElementRef\<close> is a \<^verbatim>\<open>useCallback\<close>
  on \<^verbatim>\<open>[loading, onTopKChange]\<close>, given as \<^verbatim>\<open>ref\<close> to the last result element only
  (\<^verbatim>\<open>ref={index === searchResults.length - 1 ? lastResultElementRef : null}\<close>). React
  calls the ref callback of the previous render with \<^verbatim>\<open>null\<close> for the element that carried
  it, then the callback of the new render with the element that carries it now.
\<close>

definition commit ::
  "bool \<Rightarrow> 'p onTopKChange option \<Rightarrow> node option \<Rightarrow> 'p KnowledgeSearch \<Rightarrow> 'p KnowledgeSearch"
where
  "commit loading' onTopKChange' last_element v =
     (let detached = (if attached v
                      then lastResultElementRef (loading v) (onTopKChange v) None (observer v)
                      else observer v);
          reattached = (case last_element of
                          None \<Rightarrow> detached
                        | Some e \<Rightarrow> lastResultElementRef loading' onTopKChange' (Some e) detached)
      in v\<lparr> observer := reattached, loading := loading', onTopKChange := onTopKChange',
             attached := (last_element \<noteq> None) \<rparr>)"

text \<open>
  The sentinel (the last result element) crosses the viewport: the browser calls the
  callback of the live observer if that observer observes an element, and nothing otherwise.
\<close>

definition sentinel_crossing :: "bool list \<Rightarrow> 'p KnowledgeSearch \<Rightarrow> 'p KnowledgeSearch" where
  "sentinel_crossing entries v =
     (case observer v of
        None \<Rightarrow> v
      | Some ob \<Rightarrow>
          (case observed ob of
             None \<Rightarrow> v
           | Some e \<Rightarrow> v\<lparr> parent := observer_callback (closed_over ob) entries (parent v) \<rparr>))"




section \<open>The owner of the search view\<close>

text \<open>
  Modelled from the spec: the component that owns the result list (it fetches, holds
  \<^verbatim>\<open>searchResults\<close>, \<^verbatim>\<open>loading\<close> and \<^verbatim>\<open>topK\<close>, and hands \<^verbatim>\<open>onSearchQueryChange\<close> and
  \<^verbatim>\<open>onTopKChange\<close> to \<^verbatim>\<open>KnowledgeSearch\<close>) is missing from the sources. This is the
  \<^verbatim>\<open>AggregatedResultSet\<close> of the spec's data model, with the generation token its
  concurrency section asks for and the flag that tells a failed fetch from an empty result.
\<close>

record 'a AggregatedResultSet =
  items :: "'a list"
  fetchCursor :: int
  isLoading :: bool
  agg_hasSearched :: bool
  generation :: nat
  fetchFailed :: bool

datatype aggregator_state = Idle | Loading | Populated | Exhausted

text \<open>
  Modelled from the spec: the four states of the aggregator, read off its fields
  (\<open>Loading\<close>: a fetch is in flight; \<open>Populated\<close>: a result is visible and no fetch is in
  flight; \<open>Exhausted\<close>: a completed fetch matched nothing; a failed fetch with nothing
  visible is back at \<open>Idle\<close>). The owner component is missing from the sources.
\<close>

definition state_of :: "'a AggregatedResultSet \<Rightarrow> aggregator_state" where
  "state_of a =
     (if isLoading a then Loading
      else if items a \<noteq> [] then Populated
      else if agg_hasSearched a \<and> \<not> fetchFailed a then Exhausted
      else Idle)"

text \<open>
  Modelled from the spec: \<open>submitQuery\<close>, the owner's \<^verbatim>\<open>onSearchQueryChange\<close>, missing
  from the sources. From any state it resets the cursor to its initial value \<open>init\<close>,
  clears the items, records that a search was made and starts a new generation; the fetch
  it issues carries the new generation as its token.
\<close>

definition submitQuery :: "int \<Rightarrow> string \<Rightarrow> 'a AggregatedResultSet \<Rightarrow> 'a AggregatedResultSet" where
  "submitQuery init q a =
     a\<lparr> items := [], fetchCursor := init, isLoading := True, agg_hasSearched := True,
        generation := Suc (generation a), fetchFailed := False \<rparr>"

text \<open>
  Modelled from the spec: \<open>scrolledToSentinel\<close>, the owner's \<^verbatim>\<open>onTopKChange\<close>, missing
  from the sources. It is given the updater of the cursor by the view. From \<open>Populated\<close>
  it advances the cursor and starts a fetch under the current generation, without clearing
  the items; anywhere else, and so while a fetch is in flight, it does nothing.
\<close>

definition scrolledToSentinel :: "(int \<Rightarrow> int) \<Rightarrow> 'a AggregatedResultSet \<Rightarrow> 'a AggregatedResultSet" where
  "scrolledToSentinel f a =
     (if state_of a = Populated
      then a\<lparr> fetchCursor := f (fetchCursor a), isLoading := True \<rparr>
      else a)"

text \<open>
  Modelled from the spec: the completion of a fetch, missing from the sources. A
  response whose token is not the current generation is discarded. Otherwise the page is
  put behind the items held (none after \<open>submitQuery\<close>) and the fetch is over.
\<close>

definition fetchSucceeds :: "nat \<Rightarrow> 'a list \<Rightarrow> 'a AggregatedResultSet \<Rightarrow> 'a AggregatedResultSet" where
  "fetchSucceeds token page a =
     (if token \<noteq> generation a \<or> \<not> isLoading a then a
      else a\<lparr> items := items a @ page, isLoading := False \<rparr>)"

text \<open>
  Modelled from the spec: the failure of a fetch, missing from the sources. The items
  are left as they are and the failure is shown; a stale failure is discarded.
\<close>

definition fetchFails :: "nat \<Rightarrow> 'a AggregatedResultSet \<Rightarrow> 'a AggregatedResultSet" where
  "fetchFails token a =
     (if token \<noteq> generation a \<or> \<not> isLoading a then a
      else a\<lparr> isLoading := False, fetchFailed := True \<rparr>)"

text \<open>
  Modelled from the spec: \<open>clear\<close>, missing from the sources: back to \<open>Idle\<close> from any
  state, with every outstanding fetch token made stale.
\<close>

definition clear :: "int \<Rightarrow> 'a AggregatedResultSet \<Rightarrow> 'a AggregatedResultSet" where
  "clear init a =
     \<lparr> items = [], fetchCursor = init, isLoading = False, agg_hasSearched = False,
       generation = Suc (generation a), fetchFailed = False \<rparr>"

subsection \<open>The spec's page-dimension lookup\<close>

text \<open>
  The spec's words for the dimensions of a page, to be compared with what
  \<^verbatim>\<open>processHighlight\<close> does: the caller's \<open>pageDimensions\<close> lookup at the citation's page
  number and, where the lookup knows nothing, a default the caller configures.
\<close>

definition spec_resolve_dimensions ::
  "(int \<Rightarrow> (real \<times> real) option) \<Rightarrow> real \<times> real \<Rightarrow> int \<Rightarrow> real \<times> real"
where
  "spec_resolve_dimensions pageDimensions default_dimensions page =
     (case pageDimensions page of None \<Rightarrow> default_dimensions | Some d \<Rightarrow> d)"

subsection \<open>What a batch is and which ids the backend gave\<close>

text \<open>The citations of a batch; the prop may be \<^verbatim>\<open>undefined\<close>.\<close>

definition batch_of :: "DocumentContent list option \<Rightarrow> DocumentContent list" where
  "batch_of citations = (case citations of None \<Rightarrow> [] | Some cs \<Rightarrow> cs)"

text \<open>
  The \<^verbatim>\<open>_id\<close> of a citation where it is truthy, and the truthy \<^verbatim>\<open>_id\<close>s of the citations
  of a batch that the mapper accepts, in order.
\<close>

definition backend_id :: "DocumentContent \<Rightarrow> string option" where
  "backend_id citation =
     (case meta_id (the_metadata citation) of
        None \<Rightarrow> None
      | Some s \<Rightarrow> if s = [] then None else Some s)"

fun backend_ids :: "DocumentContent list \<Rightarrow> string list" where
  "backend_ids [] = []"
| "backend_ids (citation # citations) =
     (if accepted citation
      then (case backend_id citation of
              None \<Rightarrow> backend_ids citations
            | Some s \<Rightarrow> s # backend_ids citations)
      else backend_ids citations)"

text \<open>
  The number of random draws a run over a list of citations makes (one for each accepted
  citation without a truthy \<^verbatim>\<open>_id\<close>), and the identifiers drawn in that run from the
  state \<open>n\<close> of the random source, in order.
\<close>

fun draws :: "DocumentContent list \<Rightarrow> nat" where
  "draws [] = 0"
| "draws (citation # citations) =
     (if accepted citation \<and> backend_id citation = None
      then Suc (draws citations)
      else draws citations)"

definition drawn_ids :: "random_source \<Rightarrow> nat \<Rightarrow> DocumentContent list \<Rightarrow> string list" where
  "drawn_ids rnd n citations = map (\<lambda>k. drop 2 (rnd k)) [n..<n + draws citations]"

text \<open>The ids of the highlights a run of the mapper over a list of citations returns.\<close>

definition mapped_ids :: "random_source \<Rightarrow> nat \<Rightarrow> DocumentContent list \<Rightarrow> string list" where
  "mapped_ids rnd n cs =
     map h_id (map snd (filter_highlight (fst (fst (map_processHighlight rnd n cs)))))"

section \<open>Concrete inputs\<close>

text \<open>A random source that keeps returning the text of 0.5, and one that counts.\<close>

definition fixed_random :: random_source where
  "fixed_random k = ''0.5''"

definition counting_random :: random_source where
  "counting_random k = ''0.'' @ replicate (Suc k) CHR ''7''"

definition corner :: "real \<Rightarrow> real \<Rightarrow> BoundingBox option" where
  "corner a b = Some \<lparr> pt_x = a, pt_y = b \<rparr>"

text \<open>A citation over the whole page, with an id, a page number and a text as given.\<close>

definition page_citation :: "string option \<Rightarrow> int option \<Rightarrow> DocumentContent" where
  "page_citation i p =
     \<lparr> content = Some ''matched text'',
       metadata = Some \<lparr> bounding_box = Some [corner 0 0, corner 1 0, corner 1 1, corner 0 1],
                         pageNum = p, meta_id = i \<rparr> \<rparr>"

text \<open>A citation whose bounding box has two entries only.\<close>

definition two_point_citation :: DocumentContent where
  "two_point_citation =
     \<lparr> content = Some ''matched text'',
       metadata = Some \<lparr> bounding_box = Some [corner 0 0, corner 1 1],
                         pageNum = Some 1, meta_id = Some ''c3'' \<rparr> \<rparr>"

text \<open>Five citations, the third with the two-entry box.\<close>

definition batch5 :: "DocumentContent list" where
  "batch5 =
     [page_citation (Some ''c1'') (Some 1), page_citation (Some ''c2'') (Some 1),
      two_point_citation,
      page_citation (Some ''c4'') (Some 2), page_citation None (Some 2)]"

text \<open>Two citations to which the backend gave the same id.\<close>

definition same_id_batch :: "DocumentContent list" where
  "same_id_batch =
     [page_citation (Some ''abc123'') (Some 1), page_citation (Some ''abc123'') (Some 2)]"

text \<open>A page-dimension lookup that knows page 2 to be 100 by 200.\<close>

definition page_2_known :: "int \<Rightarrow> (real \<times> real) option" where
  "page_2_known = Map.empty(2 \<mapsto> (100, 200))"

text \<open>The rectangle and the highlight the mapper makes of a whole-page citation on page 1.\<close>

definition whole_page_rect :: Scaled where
  "whole_page_rect =
     \<lparr> x1 = 0, y1 = 0, x2 = 967, y2 = 747.2272727272727,
       width = 967, height = 747.2272727272727, pageNumber = 1 \<rparr>"

definition whole_page_highlight :: "string \<Rightarrow> HighlightType" where
  "whole_page_highlight i =
     \<lparr> h_content = \<lparr> content_text = ''matched text'', image = None \<rparr>,
       h_position = \<lparr> boundingRect = whole_page_rect, rects = [whole_page_rect],
                      pos_pageNumber = 1 \<rparr>,
       h_comment = \<lparr> comment_text = [], emoji = [] \<rparr>,
       h_id = i \<rparr>"


text \<open>A random source that alternates between the texts of 0.1 and 0.2.\<close>

definition alternating_random :: random_source where
  "alternating_random k = (if even k then ''0.1'' else ''0.2'')"

text \<open>Three citations of which the first and the last have no id.\<close>

definition idless_batch :: "DocumentContent list" where
  "idless_batch =
     [page_citation None (Some 1), page_citation (Some ''c2'') (Some 1),
      page_citation None (Some 2)]"

text \<open>
  What the user adds by drawing an area: a screenshot, a rectangle on page 1 and a comment.
\<close>

definition area_selection :: NewHighlight where
  "area_selection =
     \<lparr> nh_content = \<lparr> st_text = None, st_image = Some ''png'' \<rparr>,
       nh_position = \<lparr> st_boundingRect = Some whole_page_rect, st_rects = Some [],
                        st_pageNumber = Some 1 \<rparr>,
       nh_comment = Some \<lparr> comment_text = ''note'', emoji = [] \<rparr> \<rparr>"

text \<open>
  A move of an area highlight: the rectangle and the keys that \<^verbatim>\<open>onChange\<close> sends for it
  with the screenshot \<open>png2\<close>.
\<close>

definition moved_rect :: Scaled where
  "moved_rect = whole_page_rect\<lparr> x2 := 100 \<rparr>"

definition moved_position :: PartialPosition where
  "moved_position =
     \<lparr> new_boundingRect = Present (Some moved_rect), new_rects = Absent,
       new_pageNumber = Absent \<rparr>"

definition new_screenshot :: PartialContent where
  "new_screenshot = \<lparr> new_text = Absent, new_image = Present (Some ''png2'') \<rparr>"

text \<open>
  The \<^verbatim>\<open>highlights\<close> state after the mapper ran over one citation with the \<^verbatim>\<open>_id\<close> \<open>5\<close>
  and the user then added an area highlight while \<^verbatim>\<open>Math.random()\<close> returned 0.5.
\<close>

definition collision_state :: "StoredHighlight list" where
  "collision_state =
     fst (addHighlight fixed_random 0 area_selection
            (map stored (highlights (fst (processCitationsWithHighlights fixed_random 0
               (Some [page_citation (Some ''5'') (Some 1)]))))))"

text \<open>The same with a random source that returns 0.7 for that draw.\<close>

definition distinct_state :: "StoredHighlight list" where
  "distinct_state =
     fst (addHighlight counting_random 0 area_selection
            (map stored (highlights (fst (processCitationsWithHighlights counting_random 0
               (Some [page_citation (Some ''5'') (Some 1)]))))))"

text \<open>The area highlight with the id \<open>i\<close> that \<^verbatim>\<open>addHighlight\<close> makes of that selection.\<close>

definition area_highlight :: "string \<Rightarrow> StoredHighlight" where
  "area_highlight i =
     \<lparr> st_content = \<lparr> st_text = None, st_image = Some ''png'' \<rparr>,
       st_position = \<lparr> st_boundingRect = Some whole_page_rect, st_rects = Some [],
                        st_pageNumber = Some 1 \<rparr>,
       st_comment = \<lparr> comment_text = ''note'', emoji = [] \<rparr>,
       st_id = i \<rparr>"





text \<open>
  The view wired to the owner modelled above: the user types a query and submits it
  (\<^verbatim>\<open>handleInputChange\<close>, then \<^verbatim>\<open>handleSearch\<close> with the owner's \<open>submitQuery\<close> as
  \<^verbatim>\<open>onSearchQueryChange\<close>).
\<close>

definition search_for ::
  "int \<Rightarrow> string \<Rightarrow> 'a AggregatedResultSet KnowledgeSearch \<Rightarrow> 'a AggregatedResultSet KnowledgeSearch"
where
  "search_for init q v = handleSearch (Some (submitQuery init)) (handleInputChange q v)"

text \<open>
  The view rendered over the owner's state \<open>a\<close>, not loading, with the owner's
  \<open>scrolledToSentinel\<close> as \<^verbatim>\<open>onTopKChange\<close> and the last result element \<open>e\<close>; then the
  sentinel crosses the viewport. The result is the owner's state after the callback.
\<close>

definition load_more :: "node \<Rightarrow> 'a AggregatedResultSet \<Rightarrow> 'a AggregatedResultSet" where
  "load_more e a =
     parent (sentinel_crossing [True] (commit False (Some scrolledToSentinel) (Some e) (mount a)))"

text \<open>Ten result items, and the ten of the next page.\<close>

definition ten_items :: "nat list" where
  "ten_items = [0, 1, 2, 3, 4, 5, 6, 7, 8, 9]"

definition ten_more :: "nat list" where
  "ten_more = [10, 11, 12, 13, 14, 15, 16, 17, 18, 19]"

text \<open>An aggregator holding the items \<open>xs\<close> with no fetch in flight.\<close>

definition holding :: "'a list \<Rightarrow> int \<Rightarrow> 'a AggregatedResultSet" where
  "holding xs k =
     \<lparr> items = xs, fetchCursor = k, isLoading = False, agg_hasSearched = True,
       generation = 1, fetchFailed = False \<rparr>"

text \<open>The view as mounted over an owner that holds nothing yet.\<close>

definition fresh_view :: "nat AggregatedResultSet KnowledgeSearch" where
  "fresh_view = mount (holding [] 10)"

section \<open>Properties\<close>

lemma processHighlight_accepts:
  assumes "four_point_box citation c0 c2"
  shows "processHighlight rnd n citation =
           ((Some \<lparr> h_content = \<lparr> content_text = (case content citation of None \<Rightarrow> [] | Some t \<Rightarrow> t),
                                   image = None \<rparr>,
                    h_position = \<lparr> boundingRect = mainRect c0 c2 (the_metadata citation),
                                    rects = [mainRect c0 c2 (the_metadata citation)],
                                    pos_pageNumber = pageNum_or_1 (the_metadata citation) \<rparr>,
                    h_comment = \<lparr> comment_text = [], emoji = [] \<rparr>,
                    h_id = fst (assign_id rnd n (the_metadata citation)) \<rparr>, []),
            snd (assign_id rnd n (the_metadata citation)))"
  using assms
  by (auto simp: four_point_box_def processHighlight_def the_metadata_def mainRect_def Let_def
           split: option.splits prod.splits)

subsection \<open>Helpers\<close>

lemmas concrete_defs =
  processHighlight_def page_citation_def two_point_citation_def corner_def mainRect_def
  assign_id_def getNextId_def PAGE_WIDTH_def PAGE_HEIGHT_def pageNum_or_1_def
  whole_page_highlight_def whole_page_rect_def fixed_random_def Let_def four_point_box_def
  the_metadata_def accepted_def

lemma accepted_four_point_box:
  "accepted citation \<Longrightarrow> \<exists>c0 c2. four_point_box citation c0 c2"
  unfolding accepted_def four_point_box_def
  by (cases "metadata citation"; simp; cases "bounding_box (the (metadata citation))"; simp; blast)

lemma four_point_box_accepted:
  "four_point_box citation c0 c2 \<Longrightarrow> accepted citation"
  by (auto simp: accepted_def four_point_box_def split: option.splits)

lemma processHighlight_rejects:
  "\<not> accepted citation \<Longrightarrow>
     \<exists>d. processHighlight rnd n citation = ((None, [d]), n)"
  by (auto simp: accepted_def processHighlight_def split: option.splits)

subsection \<open>C1: coordinate scaling\<close>

text \<open>
  C1, as stated, fails at the whole-page citation: corners \<open>(0,0)\<close> and \<open>(1,1)\<close> map to a
  rectangle whose \<open>y2\<close> is the page height of the source, 747.2272727272727, not 747.23.
\<close>

theorem C1_counterexample:
  "fst (fst (processHighlight fixed_random 0 (page_citation (Some ''abc123'') (Some 1))))
     = Some (whole_page_highlight ''abc123'')
   \<and> y2 (boundingRect (h_position (whole_page_highlight ''abc123''))) \<noteq> 747.23"
  by (simp add: concrete_defs)

text \<open>
  C1, amended: for every citation with a 4-point bounding box the mapper produces a
  rectangle whose \<open>(x1,y1)\<close> is corner 0 scaled by the fixed page width 967 and the fixed
  page height 747.2272727272727, whose \<open>(x2,y2)\<close> is corner 2 scaled likewise, and the
  rects list holds exactly the bounding rectangle; corners \<open>(0,0)\<close> and \<open>(1,1)\<close> map to
  \<open>(x1=0, y1=0, x2=967, y2=747.2272727272727)\<close>.
\<close>

theorem C1_scaling:
  assumes "four_point_box citation c0 c2"
  shows "\<exists>h. fst (fst (processHighlight rnd n citation)) = Some h
           \<and> x1 (boundingRect (h_position h)) = pt_x c0 * 967
           \<and> y1 (boundingRect (h_position h)) = pt_y c0 * 747.2272727272727
           \<and> x2 (boundingRect (h_position h)) = pt_x c2 * 967
           \<and> y2 (boundingRect (h_position h)) = pt_y c2 * 747.2272727272727
           \<and> rects (h_position h) = [boundingRect (h_position h)]
           \<and> (pt_x c0 = 0 \<and> pt_y c0 = 0 \<and> pt_x c2 = 1 \<and> pt_y c2 = 1 \<longrightarrow>
                x1 (boundingRect (h_position h)) = 0
              \<and> y1 (boundingRect (h_position h)) = 0
              \<and> x2 (boundingRect (h_position h)) = 967
              \<and> y2 (boundingRect (h_position h)) = 747.2272727272727)"
  unfolding processHighlight_accepts [OF assms]
  by (simp add: mainRect_def PAGE_WIDTH_def PAGE_HEIGHT_def)

theorem C1_scaling_witness:
  "four_point_box (page_citation None None) \<lparr> pt_x = 0, pt_y = 0 \<rparr> \<lparr> pt_x = 1, pt_y = 1 \<rparr>
   \<and> (\<exists>h. fst (fst (processHighlight fixed_random 0 (page_citation None None))) = Some h
          \<and> x2 (boundingRect (h_position h)) = 967
          \<and> y2 (boundingRect (h_position h)) = 747.2272727272727
          \<and> rects (h_position h) = [boundingRect (h_position h)])"
proof -
  have box: "four_point_box (page_citation None None)
               \<lparr> pt_x = 0, pt_y = 0 \<rparr> \<lparr> pt_x = 1, pt_y = 1 \<rparr>"
    by (simp add: four_point_box_def page_citation_def corner_def)
  from C1_scaling [OF box, of fixed_random 0] box show ?thesis
    by auto
qed


subsection \<open>C3: identity of a highlight\<close>

text \<open>
  C3: for every accepted citation whose \<^verbatim>\<open>_id\<close> is present and non-empty the highlight's id
  is that \<^verbatim>\<open>_id\<close>, whatever the random source and its state (so a second run gives the same
  id) and no random number is drawn; when the \<^verbatim>\<open>_id\<close> is absent or empty the id is the
  text of a fresh random draw without its first two characters.
\<close>

theorem C3_identity:
  assumes "four_point_box citation c0 c2"
  shows "(\<forall>s. meta_id (the_metadata citation) = Some s \<and> s \<noteq> [] \<longrightarrow>
            map_option h_id (fst (fst (processHighlight rnd n citation))) = Some s
          \<and> map_option h_id (fst (fst (processHighlight rnd' n' citation))) = Some s
          \<and> snd (processHighlight rnd n citation) = n)
       \<and> (meta_id (the_metadata citation) = None \<or> meta_id (the_metadata citation) = Some [] \<longrightarrow>
            map_option h_id (fst (fst (processHighlight rnd n citation))) = Some (drop 2 (rnd n))
          \<and> snd (processHighlight rnd n citation) = Suc n)"
  unfolding processHighlight_accepts [OF assms]
  by (auto simp: assign_id_def getNextId_def)

theorem C3_identity_witness:
  "four_point_box (page_citation (Some ''abc123'') None)
     \<lparr> pt_x = 0, pt_y = 0 \<rparr> \<lparr> pt_x = 1, pt_y = 1 \<rparr>
   \<and> map_option h_id (fst (fst (processHighlight fixed_random 0
        (page_citation (Some ''abc123'') None)))) = Some ''abc123''
   \<and> map_option h_id (fst (fst (processHighlight counting_random 7
        (page_citation (Some ''abc123'') None)))) = Some ''abc123''"
proof -
  have box: "four_point_box (page_citation (Some ''abc123'') None)
               \<lparr> pt_x = 0, pt_y = 0 \<rparr> \<lparr> pt_x = 1, pt_y = 1 \<rparr>"
    by (simp add: four_point_box_def page_citation_def corner_def)
  have "meta_id (the_metadata (page_citation (Some ''abc123'') None)) = Some ''abc123''"
    by (simp add: the_metadata_def page_citation_def)
  with C3_identity [OF box, of fixed_random 0 counting_random 7] box show ?thesis
    by simp
qed

subsection \<open>C9: page dimensions\<close>

text \<open>
  C9, as stated, fails: for a citation on page 2 and a caller who knows page 2 to be
  100 by 200, the rectangle still carries the width 967 and the height 747.2272727272727,
  not the dimensions the lookup resolves.
\<close>

theorem C9_counterexample:
  "fst (fst (processHighlight fixed_random 0 (page_citation (Some ''abc123'') (Some 2))))
     = Some ((whole_page_highlight ''abc123'')
              \<lparr> h_position := \<lparr> boundingRect = whole_page_rect\<lparr> pageNumber := 2 \<rparr>,
                                rects = [whole_page_rect\<lparr> pageNumber := 2 \<rparr>],
                                pos_pageNumber = 2 \<rparr> \<rparr>)
   \<and> (width whole_page_rect, height whole_page_rect)
       \<noteq> spec_resolve_dimensions page_2_known (967, 747.2272727272727) 2"
  by (simp add: concrete_defs spec_resolve_dimensions_def page_2_known_def)

text \<open>
  C9, amended: for every accepted citation, whatever its page number, the mapper takes
  the page width 967 and the page height 747.2272727272727 written in the function; it
  consults no lookup and reports no diagnostic for the dimensions.
\<close>

theorem C9_fixed_dimensions:
  assumes "four_point_box citation c0 c2"
  shows "\<exists>h. processHighlight rnd n citation
               = ((Some h, []), snd (assign_id rnd n (the_metadata citation)))
           \<and> width (boundingRect (h_position h)) = 967
           \<and> height (boundingRect (h_position h)) = 747.2272727272727
           \<and> pos_pageNumber (h_position h) = pageNum_or_1 (the_metadata citation)"
  unfolding processHighlight_accepts [OF assms]
  by (simp add: mainRect_def PAGE_WIDTH_def PAGE_HEIGHT_def)

theorem C9_fixed_dimensions_witness:
  "four_point_box (page_citation None (Some 2))
     \<lparr> pt_x = 0, pt_y = 0 \<rparr> \<lparr> pt_x = 1, pt_y = 1 \<rparr>
   \<and> (\<exists>h. processHighlight fixed_random 0 (page_citation None (Some 2)) = ((Some h, []), 1)
          \<and> width (boundingRect (h_position h)) = 967
          \<and> height (boundingRect (h_position h)) = 747.2272727272727
          \<and> pos_pageNumber (h_position h) = 2)"
proof -
  have box: "four_point_box (page_citation None (Some 2))
               \<lparr> pt_x = 0, pt_y = 0 \<rparr> \<lparr> pt_x = 1, pt_y = 1 \<rparr>"
    by (simp add: four_point_box_def page_citation_def corner_def)
  from C9_fixed_dimensions [OF box, of fixed_random 0] box show ?thesis
    by (simp add: the_metadata_def page_citation_def assign_id_def getNextId_def
                  pageNum_or_1_def)
qed

subsection \<open>C10: the page number\<close>




subsection \<open>C2: a malformed box rejects one citation, not the batch\<close>

lemma map_fst_filter_highlight:
  "map fst (filter_highlight mapped) = map fst (filter (\<lambda>(c, h). h \<noteq> None) mapped)"
  by (induction mapped rule: filter_highlight.induct) auto

lemma processHighlight_accepted_iff:
  "fst (fst (processHighlight rnd n citation)) \<noteq> None \<longleftrightarrow> accepted citation"
  by (auto simp: accepted_def processHighlight_def Let_def split: option.splits prod.splits)

lemma processHighlight_console:
  "length (snd (fst (processHighlight rnd n citation))) = (if accepted citation then 0 else 1)"
  by (auto simp: accepted_def processHighlight_def Let_def split: option.splits prod.splits)

lemma map_processHighlight_citations:
  "map fst (filter_highlight (fst (fst (map_processHighlight rnd n cs)))) = filter accepted cs"
proof (induction cs arbitrary: n)
  case Nil
  show ?case by simp
next
  case (Cons c cs)
  obtain h d n1 where ph: "processHighlight rnd n c = ((h, d), n1)"
    by (metis surj_pair)
  obtain mapped ds n2 where mp: "map_processHighlight rnd n1 cs = ((mapped, ds), n2)"
    by (metis surj_pair)
  from Cons.IH [of n1] mp have ih: "map fst (filter_highlight mapped) = filter accepted cs"
    by simp
  from processHighlight_accepted_iff [of rnd n c] ph have "h \<noteq> None \<longleftrightarrow> accepted c"
    by simp
  with ih ph mp show ?case
    by (cases h) auto
qed

lemma map_processHighlight_console:
  "length (snd (fst (map_processHighlight rnd n cs))) = length (filter (\<lambda>c. \<not> accepted c) cs)"
proof (induction cs arbitrary: n)
  case Nil
  show ?case by simp
next
  case (Cons c cs)
  obtain h d n1 where ph: "processHighlight rnd n c = ((h, d), n1)"
    by (metis surj_pair)
  obtain mapped ds n2 where mp: "map_processHighlight rnd n1 cs = ((mapped, ds), n2)"
    by (metis surj_pair)
  from Cons.IH [of n1] mp have ih: "length ds = length (filter (\<lambda>c. \<not> accepted c) cs)"
    by simp
  from processHighlight_console [of rnd n c] ph
  have "length d = (if accepted c then 0 else 1)"
    by simp
  with ih ph mp show ?case
    by auto
qed


lemma processCitationsWithHighlights_eq:
  "fst (processCitationsWithHighlights rnd n citations) =
     \<lparr> processedCitations =
         filter_highlight (fst (fst (map_processHighlight rnd n (batch_of citations)))),
       highlights =
         map snd (filter_highlight (fst (fst (map_processHighlight rnd n (batch_of citations))))),
       console = snd (fst (map_processHighlight rnd n (batch_of citations))) \<rparr>"
  by (cases citations; cases "batch_of citations")
     (auto simp: processCitationsWithHighlights_def batch_of_def Let_def split: prod.splits)

lemma bad_box_not_accepted: "bad_box c \<Longrightarrow> \<not> accepted c"
  by (auto simp: bad_box_def accepted_def split: option.splits)

lemma bad_box_diagnostic:
  "bad_box c \<Longrightarrow>
     processHighlight rnd k c =
       ((None, [Invalid_bounding_box
                  (case metadata c of None \<Rightarrow> None | Some m \<Rightarrow> bounding_box m)]), k)"
  by (auto simp: bad_box_def processHighlight_def split: option.splits)

lemma length_5: "length cs = 5 \<Longrightarrow> \<exists>a b c d e. cs = [a, b, c, d, e]"
  by (auto simp: length_Suc_conv eval_nat_numeral)

text \<open>
  C2: for every batch (also an absent one), and whatever the random source, the mapper
  returns a value: the citations it keeps are the accepted citations of the batch in
  their order, each with its highlight; the console holds one diagnostic per rejected
  citation; a citation whose bounding box is missing or has not exactly four entries is
  rejected, with the one diagnostic \<open>Invalid_bounding_box\<close>. For a batch of five whose third
  citation has such a box and whose other citations are accepted, four highlights (of
  citations 1, 2, 4 and 5) are returned and one diagnostic is reported.
\<close>

theorem C2_malformed_box:
  "map fst (processedCitations (fst (processCitationsWithHighlights rnd n citations)))
     = filter accepted (batch_of citations)
   \<and> highlights (fst (processCitationsWithHighlights rnd n citations))
     = map snd (processedCitations (fst (processCitationsWithHighlights rnd n citations)))
   \<and> length (console (fst (processCitationsWithHighlights rnd n citations)))
     = length (filter (\<lambda>c. \<not> accepted c) (batch_of citations))
   \<and> (bad_box c \<longrightarrow>
        \<not> accepted c
      \<and> processHighlight rnd k c =
          ((None, [Invalid_bounding_box
                     (case metadata c of None \<Rightarrow> None | Some m \<Rightarrow> bounding_box m)]), k))
   \<and> (length (batch_of citations) = 5 \<and> bad_box (batch_of citations ! 2)
      \<and> (\<forall>i \<in> {0, 1, 3, 4}. accepted (batch_of citations ! i)) \<longrightarrow>
        length (highlights (fst (processCitationsWithHighlights rnd n citations))) = 4
      \<and> map fst (processedCitations (fst (processCitationsWithHighlights rnd n citations)))
          = [batch_of citations ! 0, batch_of citations ! 1,
             batch_of citations ! 3, batch_of citations ! 4]
      \<and> length (console (fst (processCitationsWithHighlights rnd n citations))) = 1)"
proof -
  let ?out = "fst (processCitationsWithHighlights rnd n citations)"
  let ?cs = "batch_of citations"
  have kept: "map fst (processedCitations ?out) = filter accepted ?cs"
    by (simp add: processCitationsWithHighlights_eq map_processHighlight_citations)
  have hl: "highlights ?out = map snd (processedCitations ?out)"
    by (simp add: processCitationsWithHighlights_eq)
  have con: "length (console ?out) = length (filter (\<lambda>c. \<not> accepted c) ?cs)"
    by (simp add: processCitationsWithHighlights_eq map_processHighlight_console)
  have one: "bad_box c \<longrightarrow>
        \<not> accepted c
      \<and> processHighlight rnd k c =
          ((None, [Invalid_bounding_box
                     (case metadata c of None \<Rightarrow> None | Some m \<Rightarrow> bounding_box m)]), k)"
    using bad_box_not_accepted bad_box_diagnostic by blast
  have five: "length (highlights ?out) = 4
      \<and> map fst (processedCitations ?out) = [?cs ! 0, ?cs ! 1, ?cs ! 3, ?cs ! 4]
      \<and> length (console ?out) = 1"
    if len: "length ?cs = 5" and bad: "bad_box (?cs ! 2)"
      and good: "\<forall>i \<in> {0, 1, 3, 4}. accepted (?cs ! i)"
  proof -
    from len obtain a b c' d e where cs: "?cs = [a, b, c', d, e]"
      using length_5 by blast
    from bad cs have "\<not> accepted c'"
      using bad_box_not_accepted by fastforce
    moreover from good cs have "accepted a" "accepted b" "accepted d" "accepted e"
      by simp_all
    ultimately have f: "filter accepted ?cs = [a, b, d, e]"
      and g: "filter (\<lambda>c. \<not> accepted c) ?cs = [c']"
      using cs by simp_all
    have "length (highlights ?out) = length (map fst (processedCitations ?out))"
      using hl by simp
    with kept con f g cs show ?thesis
      by simp
  qed
  from kept hl con one five show ?thesis
    by blast
qed

theorem C2_malformed_box_witness:
  "length batch5 = 5 \<and> bad_box (batch5 ! 2)
   \<and> accepted (batch5 ! 0) \<and> accepted (batch5 ! 1) \<and> accepted (batch5 ! 3) \<and> accepted (batch5 ! 4)
   \<and> length (highlights (fst (processCitationsWithHighlights counting_random 0 (Some batch5)))) = 4
   \<and> length (console (fst (processCitationsWithHighlights counting_random 0 (Some batch5)))) = 1"
proof -
  have b: "batch_of (Some batch5) = batch5"
    by (simp add: batch_of_def)
  have l: "length batch5 = 5" and bad: "bad_box (batch5 ! 2)"
    and good: "accepted (batch5 ! 0)" "accepted (batch5 ! 1)" "accepted (batch5 ! 3)"
      "accepted (batch5 ! 4)"
    by (simp_all add: batch5_def bad_box_def accepted_def page_citation_def
                      two_point_citation_def corner_def)
  from good have g: "\<forall>i \<in> {0, 1, 3, 4}. accepted (batch5 ! i)"
    by simp
  note t = C2_malformed_box [of counting_random 0 "Some batch5" two_point_citation 0, unfolded b]
  from t l bad g
  have "length (highlights (fst (processCitationsWithHighlights counting_random 0 (Some batch5)))) = 4
      \<and> length (console (fst (processCitationsWithHighlights counting_random 0 (Some batch5)))) = 1"
    by blast
  with l bad good show ?thesis
    by (intro conjI) blast+
qed

subsection \<open>C8: ids within one run of the mapper\<close>

lemma mapped_ids_Nil: "mapped_ids rnd n [] = []"
  by (simp add: mapped_ids_def)

lemma processHighlight_id:
  assumes "accepted c"
  shows "\<exists>h. processHighlight rnd n c =
           ((Some h, []), (case backend_id c of None \<Rightarrow> Suc n | Some s \<Rightarrow> n))
         \<and> h_id h = (case backend_id c of None \<Rightarrow> drop 2 (rnd n) | Some s \<Rightarrow> s)"
proof -
  from assms obtain c0 c2 where "four_point_box c c0 c2"
    using accepted_four_point_box by blast
  then show ?thesis
    unfolding processHighlight_accepts [OF \<open>four_point_box c c0 c2\<close>]
    by (auto simp: backend_id_def assign_id_def getNextId_def split: option.splits)
qed

lemma mapped_ids_accepted:
  assumes "accepted c"
  shows "mapped_ids rnd n (c # cs) =
           (case backend_id c of
              None \<Rightarrow> drop 2 (rnd n) #
                mapped_ids rnd (Suc n) cs
            | Some s \<Rightarrow> s #
                mapped_ids rnd n cs)"
proof -
  from processHighlight_id [OF assms, of rnd n] obtain h where
    "processHighlight rnd n c = ((Some h, []), (case backend_id c of None \<Rightarrow> Suc n | Some s \<Rightarrow> n))"
    "h_id h = (case backend_id c of None \<Rightarrow> drop 2 (rnd n) | Some s \<Rightarrow> s)"
    by blast
  then show ?thesis
    by (cases "backend_id c") (auto simp: mapped_ids_def split: prod.splits)
qed

lemma mapped_ids_rejected:
  assumes "\<not> accepted c"
  shows "mapped_ids rnd n (c # cs) =
           mapped_ids rnd n cs"
proof -
  from processHighlight_rejects [OF assms, of rnd n] obtain d where
    "processHighlight rnd n c = ((None, [d]), n)"
    by blast
  then show ?thesis
    by (auto simp: mapped_ids_def split: prod.splits)
qed

text \<open>
  C8, as stated, fails: two accepted citations that share the \<^verbatim>\<open>_id\<close> \<open>abc123\<close> give two
  highlights with the id \<open>abc123\<close>.
\<close>

theorem C8_counterexample:
  "map h_id (highlights (fst (processCitationsWithHighlights fixed_random 0 (Some same_id_batch))))
     = [''abc123'', ''abc123'']
   \<and> \<not> distinct (map h_id (highlights
         (fst (processCitationsWithHighlights fixed_random 0 (Some same_id_batch)))))"
  by (simp add: processCitationsWithHighlights_def same_id_batch_def concrete_defs)

lemma drawn_ids_Suc:
  "drawn_ids rnd n (c # cs) =
     (if accepted c \<and> backend_id c = None
      then drop 2 (rnd n) # drawn_ids rnd (Suc n) cs
      else drawn_ids rnd n cs)"
  by (simp add: drawn_ids_def upt_rec)

lemma mapped_ids_set:
  "set (mapped_ids rnd n cs) = set (backend_ids cs) \<union> set (drawn_ids rnd n cs)"
proof (induction cs arbitrary: n)
  case Nil
  show ?case by (simp add: mapped_ids_Nil drawn_ids_def)
next
  case (Cons c cs)
  show ?case
  proof (cases "accepted c")
    case False
    with Cons.IH [of n] show ?thesis
      by (simp add: mapped_ids_rejected [OF False] drawn_ids_Suc)
  next
    case True
    show ?thesis
    proof (cases "backend_id c")
      case None
      with Cons.IH [of "Suc n"] True show ?thesis
        by (simp add: mapped_ids_accepted [OF True] drawn_ids_Suc)
    next
      case (Some s)
      with Cons.IH [of n] True show ?thesis
        by (simp add: mapped_ids_accepted [OF True] drawn_ids_Suc)
    qed
  qed
qed

lemma mapped_ids_distinct_iff:
  "distinct (mapped_ids rnd n cs) \<longleftrightarrow> distinct (backend_ids cs @ drawn_ids rnd n cs)"
proof (induction cs arbitrary: n)
  case Nil
  show ?case by (simp add: mapped_ids_Nil drawn_ids_def)
next
  case (Cons c cs)
  show ?case
  proof (cases "accepted c")
    case False
    with Cons.IH [of n] show ?thesis
      by (simp add: mapped_ids_rejected [OF False] drawn_ids_Suc)
  next
    case True
    show ?thesis
    proof (cases "backend_id c")
      case None
      with Cons.IH [of "Suc n"] True mapped_ids_set [of rnd "Suc n" cs] show ?thesis
        by (auto simp: mapped_ids_accepted [OF True] drawn_ids_Suc)
    next
      case (Some s)
      with Cons.IH [of n] True mapped_ids_set [of rnd n cs] show ?thesis
        by (auto simp: mapped_ids_accepted [OF True] drawn_ids_Suc)
    qed
  qed
qed

lemma map_processHighlight_backend_id:
  "(c, h) \<in> set (filter_highlight (fst (fst (map_processHighlight rnd n cs)))) \<Longrightarrow>
     backend_id c = Some s \<Longrightarrow> h_id h = s"
proof (induction cs arbitrary: n)
  case Nil
  then show ?case by simp
next
  case (Cons c' cs)
  show ?case
  proof (cases "accepted c'")
    case False
    from processHighlight_rejects [OF False, of rnd n] obtain d where
      "processHighlight rnd n c' = ((None, [d]), n)"
      by blast
    with Cons.prems(1) have "(c, h) \<in> set (filter_highlight (fst (fst (map_processHighlight rnd n cs))))"
      by (auto split: prod.splits)
    then show ?thesis
      using Cons.prems(2) by (rule Cons.IH)
  next
    case True
    from processHighlight_id [OF True, of rnd n] obtain h' where
      ph: "processHighlight rnd n c' =
             ((Some h', []), (case backend_id c' of None \<Rightarrow> Suc n | Some s \<Rightarrow> n))"
      and hid: "h_id h' = (case backend_id c' of None \<Rightarrow> drop 2 (rnd n) | Some s \<Rightarrow> s)"
      by blast
    let ?n1 = "case backend_id c' of None \<Rightarrow> Suc n | Some s \<Rightarrow> n"
    from Cons.prems(1) ph
    have "(c, h) = (c', h')
          \<or> (c, h) \<in> set (filter_highlight (fst (fst (map_processHighlight rnd ?n1 cs))))"
      by (auto split: prod.splits)
    then show ?thesis
    proof
      assume "(c, h) = (c', h')"
      with hid Cons.prems(2) show ?thesis by simp
    next
      assume "(c, h) \<in> set (filter_highlight (fst (fst (map_processHighlight rnd ?n1 cs))))"
      then show ?thesis
        using Cons.prems(2) by (rule Cons.IH)
    qed
  qed
qed

lemma map_processHighlight_counter:
  "snd (map_processHighlight rnd n cs) = n + draws cs"
proof (induction cs arbitrary: n)
  case Nil
  show ?case by simp
next
  case (Cons c cs)
  show ?case
  proof (cases "accepted c")
    case False
    from processHighlight_rejects [OF False, of rnd n] obtain d where
      "processHighlight rnd n c = ((None, [d]), n)"
      by blast
    with Cons.IH [of n] False show ?thesis
      by (auto split: prod.splits)
  next
    case True
    from processHighlight_id [OF True, of rnd n] obtain h where
      "processHighlight rnd n c =
         ((Some h, []), (case backend_id c of None \<Rightarrow> Suc n | Some s \<Rightarrow> n))"
      by blast
    with Cons.IH [of "Suc n"] Cons.IH [of n] True show ?thesis
      by (cases "backend_id c") (auto split: prod.splits)
  qed
qed

lemma processCitationsWithHighlights_counter:
  "snd (processCitationsWithHighlights rnd n citations) = n + draws (batch_of citations)"
  using map_processHighlight_counter [of rnd n "batch_of citations"]
  by (cases citations; cases "batch_of citations")
     (auto simp: processCitationsWithHighlights_def batch_of_def Let_def split: prod.splits)

text \<open>
  C8, amended: the ids of the highlights of one run are pairwise distinct exactly when
  the truthy \<^verbatim>\<open>_id\<close>s of the accepted citations, together with the random identifiers
  drawn in that run (one draw for each accepted citation without a truthy \<^verbatim>\<open>_id\<close>, and
  no other), are pairwise distinct. So they are distinct whenever the \<^verbatim>\<open>_id\<close>s are and
  the identifiers drawn are fresh, also when several citations lack an \<^verbatim>\<open>_id\<close>. Every
  accepted citation with a truthy \<^verbatim>\<open>_id\<close> gets that \<^verbatim>\<open>_id\<close> as the id of its highlight,
  so citations that share an \<^verbatim>\<open>_id\<close> get the same id.
\<close>

theorem C8_distinct_ids:
  "(distinct (map h_id (highlights (fst (processCitationsWithHighlights rnd n citations))))
      \<longleftrightarrow> distinct (backend_ids (batch_of citations) @ drawn_ids rnd n (batch_of citations)))
   \<and> snd (processCitationsWithHighlights rnd n citations) = n + draws (batch_of citations)
   \<and> (\<forall>(c, h) \<in> set (processedCitations (fst (processCitationsWithHighlights rnd n citations))).
         \<forall>s. backend_id c = Some s \<longrightarrow> h_id h = s)"
proof (intro conjI)
  show "distinct (map h_id (highlights (fst (processCitationsWithHighlights rnd n citations))))
      \<longleftrightarrow> distinct (backend_ids (batch_of citations) @ drawn_ids rnd n (batch_of citations))"
    using mapped_ids_distinct_iff [of rnd n "batch_of citations"]
    by (simp add: processCitationsWithHighlights_eq mapped_ids_def)
  show "snd (processCitationsWithHighlights rnd n citations) = n + draws (batch_of citations)"
    by (rule processCitationsWithHighlights_counter)
  show "\<forall>(c, h) \<in> set (processedCitations (fst (processCitationsWithHighlights rnd n citations))).
         \<forall>s. backend_id c = Some s \<longrightarrow> h_id h = s"
    using map_processHighlight_backend_id [of _ _ rnd n "batch_of citations"]
    by (auto simp: processCitationsWithHighlights_eq)
qed

lemma idless_batch_member:
  "(page_citation (Some ''c2'') (Some 1), whole_page_highlight ''c2'')
     \<in> set (processedCitations (fst (processCitationsWithHighlights alternating_random 0
              (Some idless_batch))))"
  by (simp add: processCitationsWithHighlights_def idless_batch_def concrete_defs
                alternating_random_def)

theorem C8_distinct_ids_witness:
  "backend_ids (batch_of (Some idless_batch)) = [''c2'']
   \<and> drawn_ids alternating_random 0 (batch_of (Some idless_batch)) = [''1'', ''2'']
   \<and> distinct (map h_id (highlights
        (fst (processCitationsWithHighlights alternating_random 0 (Some idless_batch)))))
   \<and> snd (processCitationsWithHighlights alternating_random 0 (Some idless_batch)) = 2
   \<and> (page_citation (Some ''c2'') (Some 1), whole_page_highlight ''c2'')
       \<in> set (processedCitations (fst (processCitationsWithHighlights alternating_random 0
                (Some idless_batch))))
   \<and> backend_id (page_citation (Some ''c2'') (Some 1)) = Some ''c2''
   \<and> h_id (whole_page_highlight ''c2'') = ''c2''"
proof -
  have b: "backend_ids (batch_of (Some idless_batch)) = [''c2'']"
    by (simp add: batch_of_def idless_batch_def backend_id_def accepted_def the_metadata_def
                  page_citation_def corner_def)
  have w: "draws (batch_of (Some idless_batch)) = 2"
    by (simp add: batch_of_def idless_batch_def backend_id_def accepted_def the_metadata_def
                  page_citation_def corner_def)
  have d: "drawn_ids alternating_random 0 (batch_of (Some idless_batch)) = [''1'', ''2'']"
    by (simp add: drawn_ids_def w alternating_random_def upt_rec)
  have i: "backend_id (page_citation (Some ''c2'') (Some 1)) = Some ''c2''"
    by (simp add: backend_id_def the_metadata_def page_citation_def)
  note t = C8_distinct_ids [of alternating_random 0 "Some idless_batch"]
  from t [THEN conjunct1] b d
  have x: "distinct (map h_id (highlights
          (fst (processCitationsWithHighlights alternating_random 0 (Some idless_batch)))))"
    by simp
  from t [THEN conjunct2, THEN conjunct1] w
  have y: "snd (processCitationsWithHighlights alternating_random 0 (Some idless_batch)) = 2"
    by simp
  from t [THEN conjunct2, THEN conjunct2] idless_batch_member i
  have z: "h_id (whole_page_highlight ''c2'') = ''c2''"
    by blast
  from b d x y idless_batch_member i z show ?thesis
    by (intro conjI)
qed

subsection \<open>C7: updating a highlight\<close>

lemma collision_state_eq:
  "collision_state = [area_highlight ''5'', stored (whole_page_highlight ''5'')]"
  by (simp add: collision_state_def addHighlight_def area_selection_def area_highlight_def
                processCitationsWithHighlights_def concrete_defs)

lemma distinct_state_eq:
  "distinct_state = [area_highlight ''7'', stored (whole_page_highlight ''5'')]"
  by (simp add: distinct_state_def addHighlight_def area_selection_def area_highlight_def
                processCitationsWithHighlights_def concrete_defs counting_random_def)

text \<open>
  C7, as stated, fails on a state the component reaches: the mapper made a highlight
  with the backend's id \<open>5\<close>, the user added an area highlight and the random id drawn for
  it is \<open>5\<close> as well. When the user moves the area highlight, \<^verbatim>\<open>onChange\<close> updates by that
  id and the mapper's highlight, another item, is changed too.
\<close>

theorem C7_counterexample:
  "st_id (collision_state ! 0) = ''5''
   \<and> \<not> isTextHighlight (collision_state ! 0)
   \<and> collision_state ! 1 = stored (whole_page_highlight ''5'')
   \<and> onChange (collision_state ! 0) moved_rect ''png2'' collision_state ! 1
       \<noteq> collision_state ! 1"
  by (simp add: collision_state_eq area_highlight_def isTextHighlight_def onChange_def
                updateHighlight_def spread_position_def spread_content_def spread_key_def
                stored_def whole_page_highlight_def whole_page_rect_def moved_rect_def)

lemma updateHighlight_nth:
  "j < length hs \<Longrightarrow>
     updateHighlight i p c hs ! j =
       (if st_id (hs ! j) \<noteq> i then hs ! j
        else (hs ! j)\<lparr> st_position := spread_position (st_position (hs ! j)) p,
                       st_content := spread_content (st_content (hs ! j)) c \<rparr>)"
  by (simp add: updateHighlight_def)

lemma updateHighlight_ids: "map st_id (updateHighlight i p c hs) = map st_id hs"
  by (induction hs) (simp_all add: updateHighlight_def)

lemma updateHighlight_comments: "map st_comment (updateHighlight i p c hs) = map st_comment hs"
  by (induction hs) (simp_all add: updateHighlight_def)

lemma distinct_ids_other:
  assumes "distinct (map st_id hs)" "k < length hs" "j < length hs" "st_id (hs ! k) = i" "j \<noteq> k"
  shows "st_id (hs ! j) \<noteq> i"
proof
  assume "st_id (hs ! j) = i"
  with assms have e: "map st_id hs ! j = map st_id hs ! k"
    by simp
  from assms(2,3) have "j < length (map st_id hs)" "k < length (map st_id hs)"
    by simp_all
  with assms(1) e have "j = k"
    using nth_eq_iff_index_eq by blast
  with assms(5) show False by simp
qed

text \<open>
  C7, amended: an update by id keeps the length of the sequence, the id and the comment
  at every place, leaves every item with a different id as it is, and writes the keys
  that are present in the given position and content over those of every item with that
  id, in place. When the ids of the sequence are pairwise distinct, every item other than
  the one updated is left as it is.
\<close>

theorem C7_update_in_place:
  "length (updateHighlight i p c hs) = length hs
   \<and> map st_id (updateHighlight i p c hs) = map st_id hs
   \<and> map st_comment (updateHighlight i p c hs) = map st_comment hs
   \<and> (\<forall>j<length hs. st_id (hs ! j) \<noteq> i \<longrightarrow> updateHighlight i p c hs ! j = hs ! j)
   \<and> (\<forall>j<length hs. st_id (hs ! j) = i \<longrightarrow>
         updateHighlight i p c hs ! j =
           (hs ! j)\<lparr> st_position := spread_position (st_position (hs ! j)) p,
                     st_content := spread_content (st_content (hs ! j)) c \<rparr>)
   \<and> (distinct (map st_id hs) \<longrightarrow>
         (\<forall>k<length hs. \<forall>j<length hs. st_id (hs ! k) = i \<and> j \<noteq> k \<longrightarrow>
            updateHighlight i p c hs ! j = hs ! j))"
proof (intro conjI)
  show "length (updateHighlight i p c hs) = length hs"
    by (simp add: updateHighlight_def)
  show "map st_id (updateHighlight i p c hs) = map st_id hs"
    by (rule updateHighlight_ids)
  show "map st_comment (updateHighlight i p c hs) = map st_comment hs"
    by (rule updateHighlight_comments)
  show "\<forall>j<length hs. st_id (hs ! j) \<noteq> i \<longrightarrow> updateHighlight i p c hs ! j = hs ! j"
    by (simp add: updateHighlight_nth)
  show "\<forall>j<length hs. st_id (hs ! j) = i \<longrightarrow>
         updateHighlight i p c hs ! j =
           (hs ! j)\<lparr> st_position := spread_position (st_position (hs ! j)) p,
                     st_content := spread_content (st_content (hs ! j)) c \<rparr>"
    by (simp add: updateHighlight_nth)
  show "distinct (map st_id hs) \<longrightarrow>
         (\<forall>k<length hs. \<forall>j<length hs. st_id (hs ! k) = i \<and> j \<noteq> k \<longrightarrow>
            updateHighlight i p c hs ! j = hs ! j)"
  proof (intro impI allI, elim conjE)
    fix k j
    assume "distinct (map st_id hs)" "k < length hs" "j < length hs" "st_id (hs ! k) = i" "j \<noteq> k"
    then have "st_id (hs ! j) \<noteq> i"
      by (rule distinct_ids_other)
    with \<open>j < length hs\<close> show "updateHighlight i p c hs ! j = hs ! j"
      by (simp add: updateHighlight_nth)
  qed
qed


theorem C7_update_in_place_witness:
  "distinct (map st_id distinct_state)
   \<and> st_id (distinct_state ! 0) = ''7''
   \<and> updateHighlight ''7'' moved_position new_screenshot distinct_state ! 1 = distinct_state ! 1
   \<and> updateHighlight ''7'' moved_position new_screenshot distinct_state ! 0 =
        (distinct_state ! 0)
          \<lparr> st_position := spread_position (st_position (distinct_state ! 0)) moved_position,
            st_content := spread_content (st_content (distinct_state ! 0)) new_screenshot \<rparr>
   \<and> st_boundingRect (st_position
         (updateHighlight ''7'' moved_position new_screenshot distinct_state ! 0)) = Some moved_rect
   \<and> st_image (st_content
         (updateHighlight ''7'' moved_position new_screenshot distinct_state ! 0)) = Some ''png2''"
proof -
  let ?hs = distinct_state
  have d: "distinct (map st_id ?hs)"
    by (simp add: distinct_state_eq area_highlight_def stored_def whole_page_highlight_def)
  have a: "st_id (?hs ! 0) = ''7''"
    by (simp add: distinct_state_eq area_highlight_def)
  have l0: "(0::nat) < length ?hs" and l1: "(1::nat) < length ?hs"
    by (simp_all add: distinct_state_eq)
  note t = C7_update_in_place [of "''7''" moved_position new_screenshot ?hs]
  from t d have "\<forall>k<length ?hs. \<forall>j<length ?hs. st_id (?hs ! k) = ''7'' \<and> j \<noteq> k \<longrightarrow>
            updateHighlight ''7'' moved_position new_screenshot ?hs ! j = ?hs ! j"
    by (elim conjE) (erule (1) impE)
  with l0 l1 a have one: "updateHighlight ''7'' moved_position new_screenshot ?hs ! 1 = ?hs ! 1"
    by (metis zero_neq_one)
  from t have "\<forall>j<length ?hs. st_id (?hs ! j) = ''7'' \<longrightarrow>
         updateHighlight ''7'' moved_position new_screenshot ?hs ! j =
           (?hs ! j)\<lparr> st_position := spread_position (st_position (?hs ! j)) moved_position,
                      st_content := spread_content (st_content (?hs ! j)) new_screenshot \<rparr>"
    by (elim conjE)
  with l0 a have zero: "updateHighlight ''7'' moved_position new_screenshot ?hs ! 0 =
      (?hs ! 0)\<lparr> st_position := spread_position (st_position (?hs ! 0)) moved_position,
                 st_content := spread_content (st_content (?hs ! 0)) new_screenshot \<rparr>"
    by blast
  have r: "st_boundingRect (st_position
         (updateHighlight ''7'' moved_position new_screenshot ?hs ! 0)) = Some moved_rect"
    unfolding zero
    by (simp add: spread_position_def spread_key_def moved_position_def)
  have i: "st_image (st_content
         (updateHighlight ''7'' moved_position new_screenshot ?hs ! 0)) = Some ''png2''"
    unfolding zero
    by (simp add: spread_content_def spread_key_def new_screenshot_def)
  from d a one zero r i show ?thesis
    by (intro conjI)
qed

subsection \<open>C6: load-more triggers and the loading flag\<close>


























subsection \<open>C4: a superseded fetch is discarded\<close>

lemma search_for_parent:
  "parent (search_for init q v) = submitQuery init q (parent v)"
  by (simp add: search_for_def handleSearch_def handleInputChange_def Let_def)

lemma search_for_view:
  "searchQuery (search_for init q v) = q \<and> hasSearched (search_for init q v)"
  by (simp add: search_for_def handleSearch_def handleInputChange_def Let_def)

text \<open>
  C4, on the owner modelled from the spec: a response, or a failure, whose token is not
  the current generation leaves the state as it is. When the query \<open>foo\<close> is submitted
  and then the query \<open>bar\<close>, the two fetches carry different tokens, the late response to
  \<open>foo\<close> changes nothing, and whichever of the two responses comes first the items are
  the page returned for \<open>bar\<close>.
\<close>

theorem C4_stale_response:
  "(token \<noteq> generation a \<longrightarrow> fetchSucceeds token page a = a \<and> fetchFails token a = a)
   \<and> generation (parent (search_for init foo v))
       \<noteq> generation (parent (search_for init bar (search_for init foo v)))
   \<and> fetchSucceeds (generation (parent (search_for init foo v))) page_foo
         (parent (search_for init bar (search_for init foo v)))
       = parent (search_for init bar (search_for init foo v))
   \<and> items (fetchSucceeds (generation (parent (search_for init bar (search_for init foo v)))) page_bar
         (fetchSucceeds (generation (parent (search_for init foo v))) page_foo
            (parent (search_for init bar (search_for init foo v)))))
       = page_bar
   \<and> items (fetchSucceeds (generation (parent (search_for init foo v))) page_foo
         (fetchSucceeds (generation (parent (search_for init bar (search_for init foo v)))) page_bar
            (parent (search_for init bar (search_for init foo v)))))
       = page_bar"
  by (simp add: search_for_parent submitQuery_def fetchSucceeds_def fetchFails_def)

theorem C4_stale_response_witness:
  "(0::nat) \<noteq> generation (holding ten_items 10)
   \<and> fetchSucceeds 0 ten_more (holding ten_items 10) = holding ten_items 10
   \<and> items (fetchSucceeds
         (generation (parent (search_for 10 ''bar'' (search_for 10 ''foo'' fresh_view))))
         ten_more
         (fetchSucceeds (generation (parent (search_for 10 ''foo'' fresh_view)))
            ten_items
            (parent (search_for 10 ''bar'' (search_for 10 ''foo'' fresh_view)))))
       = ten_more"
proof -
  have g: "(0::nat) \<noteq> generation (holding ten_items 10)"
    by (simp add: holding_def)
  note t = C4_stale_response [of 0 "holding ten_items 10" ten_more 10 "''foo''"
             fresh_view "''bar''" ten_items ten_more]
  note stale = t [THEN conjunct1, THEN mp, OF g, THEN conjunct1]
  note fresh = t [THEN conjunct2, THEN conjunct2, THEN conjunct2, THEN conjunct1]
  from g stale fresh show ?thesis
    by (intro conjI)
qed

subsection \<open>C5: pagination appends\<close>

lemma load_more_eq: "load_more e a = scrolledToSentinel (\<lambda>prevTopK. prevTopK + 10) a"
  by (simp add: load_more_def sentinel_crossing_def commit_def mount_def
                lastResultElementRef_def observer_callback_def Let_def)

text \<open>
  C5, on the owner modelled from the spec: from every \<open>Populated\<close> state, the sentinel
  crossing the viewport starts a fetch (the state is \<open>Loading\<close>) with the items kept, the
  cursor moved by 10 and the generation unchanged; when that fetch returns a page, the
  items are the old items followed by the page, so the old items are a prefix, unchanged,
  and ten items with a page of ten make twenty.
\<close>

theorem C5_pagination_appends:
  assumes "state_of a = Populated"
  shows "state_of (load_more e a) = Loading
       \<and> items (load_more e a) = items a
       \<and> fetchCursor (load_more e a) = fetchCursor a + 10
       \<and> generation (load_more e a) = generation a
       \<and> items (fetchSucceeds (generation a) page (load_more e a)) = items a @ page
       \<and> take (length (items a)) (items (fetchSucceeds (generation a) page (load_more e a)))
           = items a
       \<and> (length (items a) = 10 \<and> length page = 10 \<longrightarrow>
            length (items (fetchSucceeds (generation a) page (load_more e a))) = 20)"
  using assms
  by (simp add: load_more_eq scrolledToSentinel_def fetchSucceeds_def state_of_def)

theorem C5_pagination_appends_witness:
  "state_of (holding ten_items 10) = Populated
   \<and> length (items (holding ten_items 10)) = 10 \<and> length ten_more = 10
   \<and> length (items (fetchSucceeds (generation (holding ten_items 10)) ten_more
        (load_more 0 (holding ten_items 10)))) = 20
   \<and> take 10 (items (fetchSucceeds (generation (holding ten_items 10)) ten_more
        (load_more 0 (holding ten_items 10)))) = ten_items"
proof -
  have p: "state_of (holding ten_items 10) = Populated"
    by (simp add: state_of_def holding_def ten_items_def)
  have l: "length (items (holding ten_items 10)) = 10" "length ten_more = 10"
    and i: "items (holding ten_items 10) = ten_items"
    by (simp_all add: holding_def ten_items_def ten_more_def)
  note t = C5_pagination_appends [OF p, of 0 ten_more]
  from t l have "length (items (fetchSucceeds (generation (holding ten_items 10)) ten_more
        (load_more 0 (holding ten_items 10)))) = 20"
    by blast
  moreover from t l(1) i have "take 10 (items (fetchSucceeds (generation (holding ten_items 10)) ten_more
        (load_more 0 (holding ten_items 10)))) = ten_items"
    by simp
  ultimately show ?thesis
    using p l by simp
qed

end
